theory Spec2Isabelle
  imports Main
begin

section \<open>Python values, exceptions and \<open>json.dumps\<close>\<close>

text \<open>
  The worker of \<open>src/cm_worker/worker.py\<close> talks to a Redis store, runs a registered
  handler on each job and reports the outcome. Exceptions are values of \<open>pyexc\<close>; a
  computation that may raise returns \<open>pyexc + 'a\<close> with \<open>Inl\<close> the exception.
  \<open>KeyboardInterrupt\<close> and \<open>SystemExit\<close> are the two exceptions that are not subclasses
  of Python's \<open>Exception\<close>; \<open>Failure m\<close> is any other \<open>Exception\<close> instance \<open>e\<close> with
  \<open>str(e) = m\<close>.
\<close>

datatype pyexc =
    LockError
  | KeyboardInterrupt
  | SystemExit
  | AssertionError
  | IndexError
  | KeyError string
  | TypeError string
  | DataError string
  | JSONDecodeError string
  | Failure string

definition is_Exception :: "pyexc \<Rightarrow> bool" where
  "is_Exception e = (e \<noteq> KeyboardInterrupt \<and> e \<noteq> SystemExit)"

text \<open>
  The values a handler receives and returns: the JSON values (without floats, object keys
  being strings), and \<open>PyObject tn\<close>, an object of a class named \<open>tn\<close> that
  \<open>json.dumps\<close> cannot serialise (a set, a file, ...). Strings are lists of code points
  below 256.
\<close>

datatype pyval =
    PyNone
  | PyBool bool
  | PyInt int
  | PyStr string
  | PyList "pyval list"
  | PyDict "(string \<times> pyval) list"
  | PyObject string

text \<open>
  What the library and the runtime supply: \<open>json.loads\<close>, \<open>traceback.format_exc()\<close> for
  the exception being handled, and \<open>repr\<close> of a string (the text of a \<open>KeyError\<close>).
\<close>

record pyenv =
  json_loads :: "string \<Rightarrow> pyexc + pyval"
  format_exc :: "pyexc \<Rightarrow> string"
  py_repr :: "string \<Rightarrow> string"

definition exc_str :: "pyenv \<Rightarrow> pyexc \<Rightarrow> string" where
  "exc_str env e =
     (case e of
        KeyError k \<Rightarrow> py_repr env k
      | TypeError m \<Rightarrow> m
      | DataError m \<Rightarrow> m
      | JSONDecodeError m \<Rightarrow> m
      | Failure m \<Rightarrow> m
      | IndexError \<Rightarrow> ''list index out of range''
      | _ \<Rightarrow> [])"

text \<open>\<open>str(x)\<close> inside an f-string, for a field that holds a string or \<open>None\<close>.\<close>

definition fmt_opt :: "string option \<Rightarrow> string" where
  "fmt_opt x = (case x of None \<Rightarrow> ''None'' | Some s \<Rightarrow> s)"

definition py_of_opt :: "string option \<Rightarrow> pyval" where
  "py_of_opt x = (case x of None \<Rightarrow> PyNone | Some s \<Rightarrow> PyStr s)"

definition hex_digit :: "nat \<Rightarrow> char" where
  "hex_digit n = ''0123456789abcdef'' ! (n mod 16)"

fun str_nat :: "nat \<Rightarrow> string" where
  "str_nat n = (if n < 10 then [''0123456789'' ! n]
                else str_nat (n div 10) @ [''0123456789'' ! (n mod 10)])"

definition str_int :: "int \<Rightarrow> string" where
  "str_int i = (if i < 0 then CHR ''-'' # str_nat (nat (- i)) else str_nat (nat i))"

text \<open>
  \<open>json.dumps\<close> with its defaults: \<open>ensure_ascii\<close> (every character outside
  \<open>' '..'~'\<close> is escaped), item separator \<open>', '\<close> and key separator \<open>': '\<close>.
\<close>

definition escape_char :: "char \<Rightarrow> string" where
  "escape_char c =
     (if c = CHR 0x22 then [CHR 0x5C, CHR 0x22]
      else if c = CHR 0x5C then [CHR 0x5C, CHR 0x5C]
      else if c = CHR 0x0A then [CHR 0x5C, CHR ''n'']
      else if c = CHR 0x0D then [CHR 0x5C, CHR ''r'']
      else if c = CHR 0x09 then [CHR 0x5C, CHR ''t'']
      else if c = CHR 0x08 then [CHR 0x5C, CHR ''b'']
      else if c = CHR 0x0C then [CHR 0x5C, CHR ''f'']
      else if (of_char c :: nat) < 32 \<or> 126 < (of_char c :: nat)
        then [CHR 0x5C, CHR ''u'', CHR ''0'', CHR ''0'',
              hex_digit (of_char c div 16), hex_digit (of_char c)]
      else [c])"

definition encode_str :: "string \<Rightarrow> string" where
  "encode_str s = CHR 0x22 # concat (map escape_char s) @ [CHR 0x22]"

fun join :: "string \<Rightarrow> string list \<Rightarrow> string" where
  "join sep [] = []"
| "join sep [x] = x"
| "join sep (x # y # ys) = x @ sep @ join sep (y # ys)"

fun json_dumps :: "pyval \<Rightarrow> pyexc + string"
  and dumps_elems :: "pyval list \<Rightarrow> pyexc + string list"
  and dumps_items :: "(string \<times> pyval) list \<Rightarrow> pyexc + string list" where
  "json_dumps PyNone = Inr ''null''"
| "json_dumps (PyBool b) = Inr (if b then ''true'' else ''false'')"
| "json_dumps (PyInt i) = Inr (str_int i)"
| "json_dumps (PyStr s) = Inr (encode_str s)"
| "json_dumps (PyList xs) =
     (case dumps_elems xs of Inl e \<Rightarrow> Inl e
      | Inr ss \<Rightarrow> Inr (''['' @ join '', '' ss @ '']''))"
| "json_dumps (PyDict kvs) =
     (case dumps_items kvs of Inl e \<Rightarrow> Inl e
      | Inr ss \<Rightarrow> Inr (''{'' @ join '', '' ss @ ''}''))"
| "json_dumps (PyObject tn) =
     Inl (TypeError (''Object of type '' @ tn @ '' is not JSON serializable''))"
| "dumps_elems [] = Inr []"
| "dumps_elems (x # xs) =
     (case json_dumps x of Inl e \<Rightarrow> Inl e
      | Inr s \<Rightarrow> (case dumps_elems xs of Inl e \<Rightarrow> Inl e | Inr ss \<Rightarrow> Inr (s # ss)))"
| "dumps_items [] = Inr []"
| "dumps_items ((k, v) # kvs) =
     (case json_dumps v of Inl e \<Rightarrow> Inl e
      | Inr s \<Rightarrow> (case dumps_items kvs of Inl e \<Rightarrow> Inl e
                   | Inr ss \<Rightarrow> Inr ((encode_str k @ '': '' @ s) # ss)))"

text \<open>\<open>s.split(sep)\<close> for a one-character separator: empty fields are kept.\<close>

fun split_on :: "char \<Rightarrow> string \<Rightarrow> string list" where
  "split_on c [] = [[]]"
| "split_on c (x # xs) =
     (if x = c then [] # split_on c xs
      else (case split_on c xs of [] \<Rightarrow> [[x]] | y # ys \<Rightarrow> (x # y) # ys))"

section \<open>The Redis store\<close>

text \<open>
  The keys the worker uses hold lists (the queues, the done stream, the log stream) or
  hashes (\<open>locks\<close>, \<open>last_updates\<close>, \<open>jobs\<close>, \<open>files\<close>). A key that does not exist is
  the empty list, or the hash with no field, as in Redis. A list is written head first:
  \<open>LPUSH\<close> adds at the head, \<open>RPUSH\<close> at the tail, \<open>BRPOP\<close> takes from the tail.
  Values are kept as text: what the client writes as \<open>str\<close> it reads back as the bytes
  that \<open>decode('utf-8')\<close> turns into the same \<open>str\<close>. Commands on a reachable store
  succeed.
\<close>

record redis =
  lists :: "string \<Rightarrow> string list"
  hashes :: "string \<Rightarrow> string \<rightharpoonup> string"

definition hget :: "redis \<Rightarrow> string \<Rightarrow> string \<Rightarrow> string option" where
  "hget r name key = hashes r name key"

definition hset :: "redis \<Rightarrow> string \<Rightarrow> string \<Rightarrow> string \<Rightarrow> redis" where
  "hset r name key v = r\<lparr>hashes := (hashes r)(name := (hashes r name)(key \<mapsto> v))\<rparr>"

definition hdel :: "redis \<Rightarrow> string \<Rightarrow> string \<Rightarrow> redis" where
  "hdel r name key = r\<lparr>hashes := (hashes r)(name := (hashes r name)(key := None))\<rparr>"

definition rpush :: "redis \<Rightarrow> string \<Rightarrow> string \<Rightarrow> redis" where
  "rpush r name v = r\<lparr>lists := (lists r)(name := lists r name @ [v])\<rparr>"

definition lpush :: "redis \<Rightarrow> string \<Rightarrow> string \<Rightarrow> redis" where
  "lpush r name v = r\<lparr>lists := (lists r)(name := v # lists r name)\<rparr>"

fun remove_n :: "nat \<Rightarrow> 'a \<Rightarrow> 'a list \<Rightarrow> 'a list" where
  "remove_n 0 v xs = xs"
| "remove_n (Suc n) v [] = []"
| "remove_n (Suc n) v (x # xs) = (if x = v then remove_n n v xs else x # remove_n (Suc n) v xs)"

text \<open>
  \<open>LREM key count value\<close>: \<open>count = 0\<close> removes every element equal to the value, a
  positive count the first \<open>count\<close> of them from the head, a negative one from the tail.
\<close>

definition lrem :: "redis \<Rightarrow> string \<Rightarrow> int \<Rightarrow> string \<Rightarrow> redis" where
  "lrem r name count v =
     r\<lparr>lists := (lists r)(name :=
        (if count = 0 then filter (\<lambda>x. x \<noteq> v) (lists r name)
         else if 0 < count then remove_n (nat count) v (lists r name)
         else rev (remove_n (nat (- count)) v (rev (lists r name)))))\<rparr>"

text \<open>
  \<open>BRPOP keys 0\<close>: the keys are tried in the order given and the tail element of the
  first list that is not empty is taken. \<open>None\<close> is the call that blocks: every list is
  empty.
\<close>

fun brpop :: "redis \<Rightarrow> string list \<Rightarrow> (string \<times> string \<times> redis) option" where
  "brpop r [] = None"
| "brpop r (k # ks) =
     (case lists r k of
        [] \<Rightarrow> brpop r ks
      | x # xs \<Rightarrow> Some (k, last (x # xs), r\<lparr>lists := (lists r)(k := butlast (x # xs))\<rparr>))"

section \<open>The worker\<close>

text \<open>
  A handler gets the parsed job arguments. It runs for as long as it likes while other
  clients write to the store, so it is given the store at the call and yields, with its
  result or the exception it raised, the store as it is when the call returns.
\<close>

type_synonym handler = "pyval \<Rightarrow> redis \<Rightarrow> (pyexc + pyval) \<times> redis"

record worker =
  worker_id :: string
  log_queue :: "string list"
  is_exiting :: bool
  job_id :: "string option"
  pipelines :: "(string \<times> handler) list"

text \<open>\<open>Worker.__init__\<close>; the identity is \<open>str(random.randint(0, 1000000))\<close>.\<close>

definition Worker_init :: "string \<Rightarrow> worker" where
  "Worker_init wid =
     \<lparr>worker_id = wid, log_queue = [], is_exiting = False, job_id = None, pipelines = []\<rparr>"

text \<open>A Python \<open>dict\<close> keeps insertion order; assigning to a key it has keeps the key's place.\<close>

fun dict_set :: "'k \<Rightarrow> 'v \<Rightarrow> ('k \<times> 'v) list \<Rightarrow> ('k \<times> 'v) list" where
  "dict_set k v [] = [(k, v)]"
| "dict_set k v ((k', v') # kvs) =
     (if k' = k then (k, v) # kvs else (k', v') # dict_set k v kvs)"

definition add_pipeline :: "worker \<Rightarrow> string \<Rightarrow> handler \<Rightarrow> worker" where
  "add_pipeline w pipeline function = w\<lparr>pipelines := dict_set pipeline function (pipelines w)\<rparr>"

definition stop :: "worker \<Rightarrow> worker" where
  "stop w = w\<lparr>is_exiting := True\<rparr>"

definition log_put :: "worker \<Rightarrow> string \<Rightarrow> worker" where
  "log_put w m = w\<lparr>log_queue := log_queue w @ [m]\<rparr>"

definition check_lock :: "worker \<Rightarrow> redis \<Rightarrow> pyexc + unit" where
  "check_lock w r =
     (case job_id w of
        None \<Rightarrow> Inr ()
      | Some j \<Rightarrow>
          (case hget r ''locks'' j of
             None \<Rightarrow> Inl AssertionError
           | Some lock \<Rightarrow> if lock \<noteq> worker_id w then Inl LockError else Inr ()))"

definition send_result :: "redis \<Rightarrow> string \<Rightarrow> redis" where
  "send_result r data = rpush r ''queue:done'' data"

definition get_file :: "redis \<Rightarrow> string \<Rightarrow> pyexc + string" where
  "get_file r file_id =
     (case hget r ''files'' file_id of None \<Rightarrow> Inl AssertionError | Some f \<Rightarrow> Inr f)"

definition clean_up :: "worker \<times> redis \<Rightarrow> worker \<times> redis" where
  "clean_up s =
     (case s of (w, r) \<Rightarrow>
        (case job_id w of
           None \<Rightarrow> (w, r)
         | Some j \<Rightarrow>
             (let r1 = lrem r ''queue:concept-map:processing'' 0 j;
                  r2 = hdel r1 ''last_updates'' j;
                  r3 = hdel r2 ''locks'' j;
                  r4 = hdel r3 ''jobs'' j;
                  r5 = hdel r4 ''files'' j
              in (w\<lparr>job_id := None\<rparr>, r5))))"

subsection \<open>The main loop of \<open>Worker.start\<close>\<close>

definition queues :: "worker \<Rightarrow> string list" where
  "queues w = map (\<lambda>pipeline. ''queue:'' @ pipeline @ '':pending'') (map fst (pipelines w))"

text \<open>
  From the blocking pop to the second log message, before the \<open>try\<close>. An exception
  raised here is not caught by the loop.
\<close>

datatype claim_result =
    NoJob
  | ClaimFailed pyexc worker redis
  | Claimed string pyval worker redis

definition claim_job :: "pyenv \<Rightarrow> worker \<Rightarrow> redis \<Rightarrow> claim_result" where
  "claim_job env w r =
     (case brpop r (queues w) of
        None \<Rightarrow> NoJob
      | Some (from_queue, job_id_queue, r1) \<Rightarrow>
          (case split_on CHR '':'' from_queue of
             _ # pipeline # _ \<Rightarrow>
               (let w1 = w\<lparr>job_id := Some job_id_queue\<rparr>;
                    r2 = lpush r1 (''queue:'' @ pipeline @ '':processing'') job_id_queue;
                    w2 = log_put w1 (''CourseMapper Worker: Received concept-map job for ''
                           @ fmt_opt (job_id w1) @ ''...'')
                in (case hget r2 ''jobs'' job_id_queue of
                      None \<Rightarrow> ClaimFailed AssertionError w2 r2
                    | Some job \<Rightarrow>
                        (case json_loads env job of
                           Inl e \<Rightarrow> ClaimFailed e w2 r2
                         | Inr args \<Rightarrow>
                             (let r3 = hset r2 ''locks'' job_id_queue (worker_id w2);
                                  w3 = log_put w2 (''CourseMapper Worker: Processing concept-map job ''
                                         @ fmt_opt (job_id w2) @ ''...'')
                              in Claimed pipeline args w3 r3))))
           | _ \<Rightarrow> ClaimFailed IndexError w r1))"

text \<open>
  The body of the \<open>try\<close>. The result is the exception that left it, if any, with the
  worker and the store as they are at that point.
\<close>

definition try_block ::
  "worker \<Rightarrow> redis \<Rightarrow> string \<Rightarrow> pyval \<Rightarrow> pyexc option \<times> worker \<times> redis" where
  "try_block w r pipeline job =
     (case map_of (pipelines w) pipeline of
        None \<Rightarrow> (Some (KeyError pipeline), w, r)
      | Some function \<Rightarrow>
          (case function job r of
             (Inl e, r1) \<Rightarrow> (Some e, w, r1)
           | (Inr result, r1) \<Rightarrow>
               (case check_lock w r1 of
                  Inl e \<Rightarrow> (Some e, w, r1)
                | Inr _ \<Rightarrow>
                    (case json_dumps (PyDict [(''job_id'', py_of_opt (job_id w)),
                                              (''result'', result)]) of
                       Inl e \<Rightarrow> (Some e, w, r1)
                     | Inr data \<Rightarrow>
                         (let r2 = send_result r1 data;
                              (w3, r3) = clean_up (w, r2);
                              w4 = log_put w3
                                     (''CourseMapper Worker: Finished processing concept-map job ''
                                      @ fmt_opt (job_id w3))
                          in (None, w4, r3))))))"

text \<open>
  One pass of the \<open>while True\<close> loop ends back at the top of the loop (\<open>Idle\<close>), stays in
  the blocking pop because no job is pending (\<open>Waiting\<close>), or leaves \<open>start\<close> with an
  exception, which ends the process (\<open>Crashed\<close>).
\<close>

datatype step_result =
    Idle worker redis
  | Waiting worker redis
  | Crashed pyexc worker redis

text \<open>The \<open>try\<close> statement with its three \<open>except\<close> clauses, tried in the source's order.\<close>

definition run_job :: "pyenv \<Rightarrow> worker \<Rightarrow> redis \<Rightarrow> string \<Rightarrow> pyval \<Rightarrow> step_result" where
  "run_job env w r pipeline job =
     (case try_block w r pipeline job of
        (None, w', r') \<Rightarrow> Idle w' r'
      | (Some e, w', r') \<Rightarrow>
          if e = LockError then
            Idle (log_put w' (''CourseMapper Worker: Lost lock for job '' @ fmt_opt (job_id w'))) r'
          else if e = KeyboardInterrupt then Crashed SystemExit w' r'
          else if is_Exception e then
            (case json_dumps (PyDict [(''job_id'', py_of_opt (job_id w')),
                                      (''error'', PyStr (exc_str env e))]) of
               Inl e' \<Rightarrow> Crashed e' w' r'
             | Inr data \<Rightarrow>
                 (let r2 = send_result r' data;
                      w2 = log_put w' (''CourseMapper Worker: Error processing '' @ pipeline
                             @ '' job '' @ fmt_opt (job_id w'));
                      w3 = log_put w2 (format_exc env e);
                      (w4, r4) = clean_up (w3, r2)
                  in Idle w4 r4))
          else Crashed e w' r')"

definition loop_body :: "pyenv \<Rightarrow> worker \<Rightarrow> redis \<Rightarrow> step_result" where
  "loop_body env w r =
     (case claim_job env w r of
        NoJob \<Rightarrow> Waiting w r
      | ClaimFailed e w' r' \<Rightarrow> Crashed e w' r'
      | Claimed pipeline job w' r' \<Rightarrow> run_job env w' r' pipeline job)"

text \<open>The loop never ends by itself: \<open>main_loop n\<close> is its first \<open>n\<close> passes.\<close>

fun main_loop :: "pyenv \<Rightarrow> nat \<Rightarrow> worker \<Rightarrow> redis \<Rightarrow> step_result" where
  "main_loop env 0 w r = Idle w r"
| "main_loop env (Suc n) w r =
     (case loop_body env w r of
        Idle w' r' \<Rightarrow> main_loop env n w' r'
      | Waiting w' r' \<Rightarrow> Waiting w' r'
      | Crashed e w' r' \<Rightarrow> Crashed e w' r')"

text \<open>
  \<open>start\<close>: the connection test, then the loop. The two threads it starts are the
  functions of the next subsection; they run beside the loop.
\<close>

definition start :: "pyenv \<Rightarrow> bool \<Rightarrow> nat \<Rightarrow> worker \<Rightarrow> redis \<Rightarrow> step_result" where
  "start env ping n w r =
     (if \<not> ping then Crashed (Failure ''Could not connect to Redis'') w r
      else main_loop env n w r)"

subsection \<open>The two background threads\<close>

text \<open>
  A thread's loop has run to its end (\<open>Finished\<close>), is still looping after the passes
  looked at (\<open>Running\<close>), or has ended with an exception nobody catches (\<open>Died\<close>).
\<close>

datatype 'a thread_result =
    Finished 'a
  | Running 'a
  | Died pyexc 'a

text \<open>
  \<open>log_generator\<close>: \<open>clock t\<close> is what \<open>time.strftime\<close> gives in pass \<open>t\<close> of the loop.
  An empty queue is the \<open>Empty\<close> exception after the timeout, which the loop passes over.
\<close>

definition log_record :: "worker \<Rightarrow> string \<Rightarrow> string \<Rightarrow> pyval" where
  "log_record w timestamp log_message =
     PyDict [(''worker_id'', PyStr (worker_id w)),
             (''job_id'', py_of_opt (job_id w)),
             (''timestamp'', PyStr timestamp),
             (''message'', PyStr log_message)]"

fun log_generator ::
  "(nat \<Rightarrow> string) \<Rightarrow> nat \<Rightarrow> nat \<Rightarrow> worker \<Rightarrow> redis \<Rightarrow> (worker \<times> redis) thread_result" where
  "log_generator clock 0 t w r = Running (w, r)"
| "log_generator clock (Suc n) t w r =
     (if is_exiting w then Finished (w, r)
      else (case log_queue w of
              [] \<Rightarrow> log_generator clock n (Suc t) w r
            | log_message # rest \<Rightarrow>
                (case json_dumps (log_record w (clock t) log_message) of
                   Inl e \<Rightarrow> Died e (w\<lparr>log_queue := rest\<rparr>, r)
                 | Inr msg \<Rightarrow>
                     log_generator clock n (Suc t) (w\<lparr>log_queue := rest\<rparr>) (rpush r ''log'' msg))))"

text \<open>
  \<open>status_updater\<close>: the loop of the heartbeat thread, for the worker \<open>self\<close> it is given
  and the \<open>job_id\<close> that \<open>start_updater_thread\<close> was called with; \<open>clock t\<close> is
  \<open>str(int(time.time()))\<close> in pass \<open>t\<close>. The client refuses \<open>None\<close> as a hash field with a
  \<open>DataError\<close>.
\<close>

fun status_updater_loop ::
  "(nat \<Rightarrow> string) \<Rightarrow> string option \<Rightarrow> nat \<Rightarrow> nat \<Rightarrow> worker \<Rightarrow> redis \<Rightarrow> redis thread_result" where
  "status_updater_loop clock job_id_arg 0 t self r = Running r"
| "status_updater_loop clock job_id_arg (Suc n) t self r =
     (if is_exiting self then Finished r
      else (case check_lock self r of
              Inl e \<Rightarrow> Died e r
            | Inr _ \<Rightarrow>
                (case job_id_arg of
                   None \<Rightarrow> Died (DataError ''Invalid input of type NoneType'') r
                 | Some j \<Rightarrow>
                     status_updater_loop clock job_id_arg n (Suc t) self
                       (hset r ''last_updates'' j (clock t)))))"

text \<open>
  \<open>status_updater\<close> is declared with one parameter, \<open>self\<close>. Called with any other number
  of arguments it raises \<open>TypeError\<close> before its body runs.
\<close>

definition status_updater ::
  "(nat \<Rightarrow> string) \<Rightarrow> string option \<Rightarrow> nat \<Rightarrow> worker list \<Rightarrow> redis \<Rightarrow> redis thread_result" where
  "status_updater clock job_id_arg n args r =
     (case args of
        [self] \<Rightarrow> status_updater_loop clock job_id_arg n 0 self r
      | [] \<Rightarrow> Died (TypeError ''status_updater() missing 1 required positional argument'') r
      | _ \<Rightarrow> Died (TypeError (''status_updater() takes 1 positional argument but ''
                    @ str_nat (length args) @ '' were given'')) r)"

text \<open>
  \<open>start_updater_thread\<close> makes the thread with \<open>Thread(target=status_updater,
  daemon=True)\<close>: no \<open>args\<close>, so the thread calls its target with no argument.
\<close>

definition start_updater_thread ::
  "(nat \<Rightarrow> string) \<Rightarrow> worker \<Rightarrow> string option \<Rightarrow> nat \<Rightarrow> redis \<Rightarrow> redis thread_result" where
  "start_updater_thread clock w job_id_arg n r = status_updater clock job_id_arg n [] r"

text \<open>\<open>start_log_thread\<close> calls \<open>log_generator\<close>, which has no parameter, the same way.\<close>

definition start_log_thread ::
  "(nat \<Rightarrow> string) \<Rightarrow> worker \<Rightarrow> nat \<Rightarrow> redis \<Rightarrow> (worker \<times> redis) thread_result" where
  "start_log_thread clock w n r = log_generator clock n 0 w r"

section \<open>Scenarios\<close>

text \<open>
  The store of the scenarios: nothing but job \<open>j1\<close>, with arguments \<open>{"x":1}\<close>, in the
  pending queue of one pipeline. The worker \<open>w1\<close> has that pipeline registered.
\<close>

definition empty_store :: redis where
  "empty_store = \<lparr>lists = (\<lambda>_. []), hashes = (\<lambda>_. Map.empty)\<rparr>"

definition scenario_env :: pyenv where
  "scenario_env =
     \<lparr>json_loads = (\<lambda>s. if s = ''{\"x\":1}'' then Inr (PyDict [(''x'', PyInt 1)])
                         else Inl (JSONDecodeError ''Expecting value'')),
      format_exc = (\<lambda>e. ''Traceback (most recent call last): ...''),
      py_repr = (\<lambda>s. [CHR 0x27] @ s @ [CHR 0x27])\<rparr>"

definition job_store :: "string \<Rightarrow> redis" where
  "job_store pipeline =
     hset (rpush empty_store (''queue:'' @ pipeline @ '':pending'') ''j1'')
       ''jobs'' ''j1'' ''{\"x\":1}''"

text \<open>
  Three handlers: one returns a value, one raises, and one returns while another worker,
  \<open>w2\<close>, has written itself into the lock record of \<open>j1\<close>.
\<close>

definition returns :: "pyval \<Rightarrow> handler" where
  "returns v = (\<lambda>job r. (Inr v, r))"

definition raises :: "pyexc \<Rightarrow> handler" where
  "raises e = (\<lambda>job r. (Inl e, r))"

definition loses_lock :: "pyval \<Rightarrow> handler" where
  "loses_lock v = (\<lambda>job r. (Inr v, hset r ''locks'' ''j1'' ''w2''))"

definition scenario_worker :: "string \<Rightarrow> handler \<Rightarrow> worker" where
  "scenario_worker pipeline h = add_pipeline (Worker_init ''w1'') pipeline h"

definition scenario_clock :: "nat \<Rightarrow> string" where
  "scenario_clock t = ''2024-01-01 00:00:0'' @ str_nat (t mod 10)"

section \<open>Properties\<close>

lemmas store_defs =
  empty_store_def job_store_def hset_def hget_def hdel_def rpush_def lpush_def lrem_def
  send_result_def

lemmas worker_defs =
  scenario_worker_def add_pipeline_def Worker_init_def log_put_def queues_def stop_def

lemmas loop_defs =
  loop_body_def claim_job_def run_job_def try_block_def check_lock_def clean_up_def

lemmas text_defs =
  py_of_opt_def fmt_opt_def encode_str_def escape_char_def str_int_def

subsection \<open>The lock check\<close>

text \<open>
  C3 (as amended). The lock check succeeds without reading the store when no job is held.
  When a job is held it fails with \<open>LockError\<close> exactly when the lock record of the job
  is present and names another owner, it succeeds exactly when the record names this
  worker, and when the record is absent it fails with \<open>AssertionError\<close>, not with
  \<open>LockError\<close>.
\<close>

theorem check_lock_verdict:
  "check_lock (w\<lparr>job_id := None\<rparr>) r = Inr ()
   \<and> ((check_lock (w\<lparr>job_id := Some j\<rparr>) r = Inl LockError)
        = (\<exists>owner. hget r ''locks'' j = Some owner \<and> owner \<noteq> worker_id w))
   \<and> ((check_lock (w\<lparr>job_id := Some j\<rparr>) r = Inl AssertionError)
        = (hget r ''locks'' j = None))
   \<and> ((check_lock (w\<lparr>job_id := Some j\<rparr>) r = Inr ())
        = (hget r ''locks'' j = Some (worker_id w)))"
  by (auto simp: check_lock_def split: option.splits)

theorem check_lock_verdict_witness:
  "check_lock ((Worker_init ''w1'')\<lparr>job_id := Some ''j1''\<rparr>)
     (hset empty_store ''locks'' ''j1'' ''w2'') = Inl LockError"
  using check_lock_verdict [of "Worker_init ''w1''" "hset empty_store ''locks'' ''j1'' ''w2''" "''j1''"]
  by (simp add: hget_def hset_def empty_store_def Worker_init_def)

text \<open>
  C3 as written fails where the owner is absent: the stored owner is not this
  worker, and the check does not fail with \<open>LockError\<close>.
\<close>

theorem check_lock_absent_owner_counterexample:
  "hget empty_store ''locks'' ''j1'' \<noteq> Some (worker_id (Worker_init ''w1''))
   \<and> check_lock ((Worker_init ''w1'')\<lparr>job_id := Some ''j1''\<rparr>) empty_store \<noteq> Inl LockError
   \<and> check_lock ((Worker_init ''w1'')\<lparr>job_id := Some ''j1''\<rparr>) empty_store = Inl AssertionError"
  by (simp add: check_lock_def hget_def empty_store_def Worker_init_def)

subsection \<open>Cleanup\<close>

lemma clean_up_Some:
  "clean_up (w\<lparr>job_id := Some j\<rparr>, r) =
     (w\<lparr>job_id := None\<rparr>,
      hdel (hdel (hdel (hdel (lrem r ''queue:concept-map:processing'' 0 j)
        ''last_updates'' j) ''locks'' j) ''jobs'' j) ''files'' j)"
  by (simp add: clean_up_def)

lemma clean_up_None: "job_id w = None \<Longrightarrow> clean_up (w, r) = (w, r)"
  by (simp add: clean_up_def)

lemma clean_up_job_id: "job_id (fst (clean_up (w, r))) = None"
  by (simp add: clean_up_def Let_def split: option.splits)

lemma clean_up_held:
  assumes "job_id w = Some j"
  shows "clean_up (w, r) =
     (w\<lparr>job_id := None\<rparr>,
      hdel (hdel (hdel (hdel (lrem r ''queue:concept-map:processing'' 0 j)
        ''last_updates'' j) ''locks'' j) ''jobs'' j) ''files'' j)"
  using assms by (simp add: clean_up_def)

text \<open>
  C7. Cleanup run a second time changes nothing, and it has no error case. It changes
  nothing either when no job is held. The store removals are made for the job held on
  entry, and on exit no job is held; and the removals themselves, made again for the same
  job, leave the store as the first pass left it.
\<close>

theorem clean_up_idempotent:
  "clean_up (clean_up (w, r)) = clean_up (w, r)
   \<and> clean_up (w\<lparr>job_id := None\<rparr>, r) = (w\<lparr>job_id := None\<rparr>, r)
   \<and> job_id (fst (clean_up (w, r))) = None
   \<and> snd (clean_up (w\<lparr>job_id := Some j\<rparr>, r)) =
       hdel (hdel (hdel (hdel (lrem r ''queue:concept-map:processing'' 0 j)
         ''last_updates'' j) ''locks'' j) ''jobs'' j) ''files'' j
   \<and> snd (clean_up (w\<lparr>job_id := Some j\<rparr>, snd (clean_up (w\<lparr>job_id := Some j\<rparr>, r))))
       = snd (clean_up (w\<lparr>job_id := Some j\<rparr>, r))"
proof -
  have twice: "clean_up (clean_up (w, r)) = clean_up (w, r)"
    by (cases "clean_up (w, r)") (metis clean_up_None clean_up_job_id fst_conv)
  have again: "snd (clean_up (w\<lparr>job_id := Some j\<rparr>, snd (clean_up (w\<lparr>job_id := Some j\<rparr>, r))))
       = snd (clean_up (w\<lparr>job_id := Some j\<rparr>, r))"
    unfolding clean_up_Some snd_conv
    by (simp add: lrem_def hdel_def fun_upd_twist)
  show ?thesis
    using twice again by (simp add: clean_up_Some clean_up_None clean_up_job_id)
qed

subsection \<open>The \<open>try\<close> statement of the main loop\<close>


lemma try_block_success:
  assumes "job_id w = Some j"
    and "map_of (pipelines w) pipeline = Some h"
    and "h job r = (Inr result, r1)"
    and "check_lock w r1 = Inr ()"
    and "json_dumps (PyDict [(''job_id'', PyStr j), (''result'', result)]) = Inr data"
  shows "try_block w r pipeline job =
     (None,
      log_put (w\<lparr>job_id := None\<rparr>) ''CourseMapper Worker: Finished processing concept-map job None'',
      snd (clean_up (w, send_result r1 data)))"
  using assms
  by (simp add: try_block_def py_of_opt_def fmt_opt_def clean_up_held [OF assms(1)])



lemma try_block_unserialisable:
  assumes "map_of (pipelines w) pipeline = Some h"
    and "h job r = (Inr result, r1)"
    and "check_lock w r1 = Inr ()"
    and "json_dumps (PyDict [(''job_id'', py_of_opt (job_id w)), (''result'', result)]) = Inl e"
  shows "try_block w r pipeline job = (Some e, w, r1)"
  using assms by (simp add: try_block_def)











lemma try_block_exception_keeps_worker:
  assumes "try_block w r pipeline job = (Some e, w', r')"
  shows "w' = w"
  using assms
  by (auto simp: try_block_def Let_def split: option.splits prod.splits sum.splits)

lemma try_block_completed_job_id:
  assumes "try_block w r pipeline job = (None, w', r')"
  shows "job_id w' = None"
  using assms clean_up_job_id
  by (auto simp: try_block_def Let_def log_put_def split: option.splits prod.splits sum.splits)
     (metis fst_conv)

text \<open>
  C10. On the success path the completion message is built after cleanup has cleared the
  job id: the message put in the log queue ends in \<open>job None\<close>, whatever the id of the
  job that has just finished, and so differs from the message that would name the job
  (unless the job is itself called \<open>None\<close>).
\<close>

theorem completion_message_without_job_id:
  assumes "job_id w = Some j"
    and "map_of (pipelines w) pipeline = Some h"
    and "h job r = (Inr result, r1)"
    and "check_lock w r1 = Inr ()"
    and "json_dumps (PyDict [(''job_id'', PyStr j), (''result'', result)]) = Inr data"
  shows "\<exists>w' r'. run_job env w r pipeline job = Idle w' r'
           \<and> log_queue w' = log_queue w
                @ [''CourseMapper Worker: Finished processing concept-map job None'']
           \<and> (j \<noteq> ''None'' \<longrightarrow>
                last (log_queue w')
                  \<noteq> ''CourseMapper Worker: Finished processing concept-map job '' @ j)"
  using try_block_success [OF assms]
  by (simp add: run_job_def log_put_def)

theorem completion_message_without_job_id_witness:
  "\<exists>w' r'.
     run_job scenario_env
        ((scenario_worker ''concept-map'' (returns (PyDict [(''y'', PyInt 2)])))\<lparr>job_id := Some ''j1''\<rparr>)
        (hset (job_store ''concept-map'') ''locks'' ''j1'' ''w1'') ''concept-map'' (PyDict [(''x'', PyInt 1)])
       = Idle w' r'
     \<and> log_queue w' = [''CourseMapper Worker: Finished processing concept-map job None'']
     \<and> last (log_queue w') \<noteq> ''CourseMapper Worker: Finished processing concept-map job j1''"
proof -
  let ?h = "returns (PyDict [(''y'', PyInt 2)])"
  let ?w = "(scenario_worker ''concept-map'' ?h)\<lparr>job_id := Some ''j1''\<rparr>"
  let ?r = "hset (job_store ''concept-map'') ''locks'' ''j1'' ''w1''"
  let ?data = "''{\"job_id\": \"j1\", \"result\": {\"y\": 2}}''"
  have a: "job_id ?w = Some ''j1''" by simp
  have b: "map_of (pipelines ?w) ''concept-map'' = Some ?h"
    by (simp add: worker_defs)
  have c: "?h (PyDict [(''x'', PyInt 1)]) ?r = (Inr (PyDict [(''y'', PyInt 2)]), ?r)"
    by (simp add: returns_def)
  have d: "check_lock ?w ?r = Inr ()"
    by (simp add: check_lock_def hget_def hset_def worker_defs)
  have e: "json_dumps (PyDict [(''job_id'', PyStr ''j1''), (''result'', PyDict [(''y'', PyInt 2)])])
       = Inr ?data"
    by (simp add: text_defs)
  have g: "log_queue ?w = []" by (simp add: worker_defs)
  from completion_message_without_job_id [OF a b c d e, of scenario_env]
  obtain w' r' where
    "run_job scenario_env ?w ?r ''concept-map'' (PyDict [(''x'', PyInt 1)]) = Idle w' r'"
    "log_queue w' = log_queue ?w @ [''CourseMapper Worker: Finished processing concept-map job None'']"
    "last (log_queue w') \<noteq> ''CourseMapper Worker: Finished processing concept-map job '' @ ''j1''"
    by auto
  then show ?thesis
    using g by (intro exI [of _ w'] exI [of _ r']) simp
qed

lemma loop_body_idle:
  assumes "loop_body env w r = Idle w' r'"
  shows "\<exists>pipeline job w1 r1 j.
           claim_job env w r = Claimed pipeline job w1 r1
         \<and> job_id w1 = Some j
         \<and> job_id w' = (if fst (try_block w1 r1 pipeline job) = Some LockError then Some j else None)"
proof (cases "claim_job env w r")
  case NoJob
  with assms show ?thesis by (simp add: loop_body_def)
next
  case (ClaimFailed e w1 r1)
  with assms show ?thesis by (simp add: loop_body_def)
next
  case (Claimed pipeline job w1 r1)
  then obtain j where j: "job_id w1 = Some j"
    by (auto simp: claim_job_def Let_def log_put_def
          split: option.splits prod.splits list.splits sum.splits)
  from assms Claimed have run: "run_job env w1 r1 pipeline job = Idle w' r'"
    by (simp add: loop_body_def)
  obtain x w2 r2 where t: "try_block w1 r1 pipeline job = (x, w2, r2)"
    by (cases "try_block w1 r1 pipeline job") auto
  have "job_id w' = (if x = Some LockError then Some j else None)"
  proof (cases x)
    case None
    with t run try_block_completed_job_id [of w1 r1 pipeline job w2 r2]
    show ?thesis by (simp add: run_job_def)
  next
    case (Some e)
    with t have w2: "w2 = w1" by (simp add: try_block_exception_keeps_worker)
    from run t Some w2 j clean_up_job_id show ?thesis
      by (auto simp: run_job_def Let_def log_put_def split: if_splits sum.splits prod.splits)
         (metis fst_conv)
  qed
  with Claimed j t show ?thesis by simp
qed

text \<open>
  C8 (as amended). A new worker holds no job. A pass that ends back at the top of the loop
  has claimed a job; the worker then holds no job, unless the \<open>try\<close> was left by
  \<open>LockError\<close>: on that path cleanup does not run and the worker still holds the job
  whose lock it lost.
\<close>

theorem idle_job_id:
  "job_id (Worker_init wid) = None
   \<and> (loop_body env w r = Idle w' r' \<longrightarrow>
        (\<exists>pipeline job w1 r1 j.
           claim_job env w r = Claimed pipeline job w1 r1
         \<and> job_id w1 = Some j
         \<and> job_id w' =
             (if fst (try_block w1 r1 pipeline job) = Some LockError then Some j else None)))"
  using loop_body_idle [of env w r w' r'] by (simp add: Worker_init_def)

theorem idle_job_id_witness:
  "\<exists>w' r'. loop_body scenario_env (scenario_worker ''concept-map'' (raises (Failure ''boom'')))
              (job_store ''concept-map'') = Idle w' r'
     \<and> job_id w' = None"
proof -
  let ?w = "scenario_worker ''concept-map'' (raises (Failure ''boom''))"
  let ?r = "job_store ''concept-map''"
  obtain w' r' where run: "loop_body scenario_env ?w ?r = Idle w' r'"
    by (simp add: loop_defs store_defs worker_defs scenario_env_def raises_def text_defs
          is_Exception_def exc_str_def)
  from idle_job_id [of "''w1''" scenario_env ?w ?r w' r'] run obtain pipeline job w1 r1 j where
    c: "claim_job scenario_env ?w ?r = Claimed pipeline job w1 r1"
    and k: "job_id w' = (if fst (try_block w1 r1 pipeline job) = Some LockError then Some j else None)"
    by auto
  from c have "fst (try_block w1 r1 pipeline job) = Some (Failure ''boom'')"
    by (auto simp: claim_job_def try_block_def store_defs worker_defs scenario_env_def raises_def
          text_defs)
  with k run show ?thesis by auto
qed

text \<open>
  C8 as written fails on the lost-lock path: back at the top of the loop the worker
  holds \<open>j1\<close>.
\<close>

theorem lost_lock_keeps_job_id_counterexample:
  "(case loop_body scenario_env (scenario_worker ''concept-map'' (loses_lock (PyDict [(''y'', PyInt 2)])))
           (job_store ''concept-map'') of
      Idle w' r' \<Rightarrow> job_id w' = Some ''j1''
    | _ \<Rightarrow> False)"
  by (simp add: loop_defs store_defs worker_defs scenario_env_def loses_lock_def text_defs)

lemma clean_up_processing_queue:
  "j \<notin> set (lists (snd (clean_up (w\<lparr>job_id := Some j\<rparr>, r))) ''queue:concept-map:processing'')
   \<and> (k \<noteq> ''queue:concept-map:processing'' \<longrightarrow>
        lists (snd (clean_up (w\<lparr>job_id := Some j\<rparr>, r))) k = lists r k)"
  by (simp add: clean_up_def lrem_def hdel_def)

text \<open>
  C1. Cleanup removes the job from the list \<open>queue:concept-map:processing\<close>, whatever
  the pipeline; the claim step pushed it to \<open>queue:<pipeline>:processing\<close>. For a job
  of a pipeline \<open>b\<close> the pass succeeds, the hash records of the job are deleted, and
  the job is still in \<open>queue:b:processing\<close>.
\<close>

theorem cleanup_misses_other_pipeline:
  "(case loop_body scenario_env (scenario_worker ''b'' (returns (PyDict [(''y'', PyInt 2)])))
           (job_store ''b'') of
      Idle w' r' \<Rightarrow>
        lists r' ''queue:b:processing'' = [''j1'']
        \<and> lists r' ''queue:done'' = [''{\"job_id\": \"j1\", \"result\": {\"y\": 2}}'']
        \<and> hget r' ''last_updates'' ''j1'' = None \<and> hget r' ''locks'' ''j1'' = None
        \<and> hget r' ''jobs'' ''j1'' = None \<and> job_id w' = None
    | _ \<Rightarrow> False)"
  by (simp add: loop_defs store_defs worker_defs scenario_env_def returns_def text_defs)

subsection \<open>The background threads\<close>

text \<open>
  C2. The heartbeat thread that \<open>start_updater_thread\<close> starts calls
  \<open>status_updater\<close> without the argument it requires: the thread ends with
  \<open>TypeError\<close> before the first pass of its loop, for every worker, store and clock,
  and the store is never written.
\<close>

theorem updater_thread_never_writes:
  "start_updater_thread clock w (job_id w) n r =
     Died (TypeError ''status_updater() missing 1 required positional argument'') r"
  by (simp add: start_updater_thread_def status_updater_def)

text \<open>
  Given its argument, the loop would end on the first failed lock check, with that
  exception and before the write of that pass.
\<close>

lemma status_updater_lock_lost:
  assumes "\<not> is_exiting self" and "check_lock self r = Inl e"
  shows "status_updater clock job_id_arg (Suc n) [self] r = Died e r"
  using assms by (simp add: status_updater_def)

lemma log_record_queue [simp]: "log_record (w\<lparr>log_queue := q\<rparr>) ts m = log_record w ts m"
  by (simp add: log_record_def)

lemma json_dumps_log_record: "\<exists>s. json_dumps (log_record w ts m) = Inr s"
  by (cases "job_id w") (simp_all add: log_record_def py_of_opt_def)

lemma lists_rpush_all:
  "lists (foldl (\<lambda>r e. rpush r k e) r entries) k = lists r k @ entries"
  by (induction entries arbitrary: r) (simp_all add: rpush_def)

lemma log_generator_drains:
  assumes "\<not> is_exiting w"
  shows "\<exists>entries.
           log_generator clock n t w r =
             Running (w\<lparr>log_queue := drop n (log_queue w)\<rparr>,
                      foldl (\<lambda>r e. rpush r ''log'' e) r entries)
         \<and> map Inr entries =
             map (\<lambda>(i, m). json_dumps (log_record w (clock i) m))
               (enumerate t (take n (log_queue w)))"
  using assms
proof (induction n arbitrary: t w r)
  case 0
  show ?case by (intro exI [of _ "[]"]) simp
next
  case (Suc n)
  show ?case
  proof (cases "log_queue w")
    case Nil
    from Suc.IH [OF Suc.prems, of "Suc t" r] Nil Suc.prems show ?thesis
      by simp
  next
    case (Cons m rest)
    obtain s where s: "json_dumps (log_record w (clock t) m) = Inr s"
      using json_dumps_log_record by blast
    let ?w = "w\<lparr>log_queue := rest\<rparr>"
    have "\<not> is_exiting ?w" using Suc.prems by simp
    from Suc.IH [OF this, of "Suc t" "rpush r ''log'' s"]
    obtain entries where
      run: "log_generator clock n (Suc t) ?w (rpush r ''log'' s) =
             Running (?w\<lparr>log_queue := drop n (log_queue ?w)\<rparr>,
                      foldl (\<lambda>r e. rpush r ''log'' e) (rpush r ''log'' s) entries)"
      and ent: "map Inr entries =
             map (\<lambda>(i, m). json_dumps (log_record ?w (clock i) m))
               (enumerate (Suc t) (take n (log_queue ?w)))"
      by blast
    show ?thesis
      using run ent s Cons Suc.prems
      by (intro exI [of _ "s # entries"]) simp
  qed
qed

text \<open>
  C9 (as amended). While the exit flag is not set, \<open>n\<close> passes of the log thread take
  the first \<open>n\<close> messages off the queue (all of them once \<open>n\<close> reaches the length of
  the queue) and append one entry for each to the log stream, in the order of the queue,
  each entry being \<open>json.dumps\<close> of the record made from the message; the rest of the
  queue is kept. Once the exit flag is set the loop ends at its next pass, and the messages
  still in the queue are not appended. The witness is the queue \<open>a, b, c\<close>.
\<close>

theorem log_emitter_fifo:
  "(\<not> is_exiting w \<longrightarrow>
      (\<exists>entries r'.
         start_log_thread clock w n r = Running (w\<lparr>log_queue := drop n (log_queue w)\<rparr>, r')
       \<and> lists r' ''log'' = lists r ''log'' @ entries
       \<and> map Inr entries =
           map (\<lambda>(i, m). json_dumps (log_record w (clock i) m))
             (enumerate 0 (take n (log_queue w)))))
   \<and> (is_exiting w \<longrightarrow> start_log_thread clock w (Suc n) r = Finished (w, r))"
proof (intro conjI impI)
  assume "\<not> is_exiting w"
  from log_generator_drains [OF this, of clock n 0 r]
  obtain entries where
    "log_generator clock n 0 w r =
       Running (w\<lparr>log_queue := drop n (log_queue w)\<rparr>,
                foldl (\<lambda>r e. rpush r ''log'' e) r entries)"
    "map Inr entries =
       map (\<lambda>(i, m). json_dumps (log_record w (clock i) m)) (enumerate 0 (take n (log_queue w)))"
    by blast
  then show "\<exists>entries r'.
         start_log_thread clock w n r = Running (w\<lparr>log_queue := drop n (log_queue w)\<rparr>, r')
       \<and> lists r' ''log'' = lists r ''log'' @ entries
       \<and> map Inr entries =
           map (\<lambda>(i, m). json_dumps (log_record w (clock i) m))
             (enumerate 0 (take n (log_queue w)))"
    by (intro exI [of _ entries] exI [of _ "foldl (\<lambda>r e. rpush r ''log'' e) r entries"])
       (simp add: start_log_thread_def lists_rpush_all)
next
  assume "is_exiting w"
  then show "start_log_thread clock w (Suc n) r = Finished (w, r)"
    by (simp add: start_log_thread_def)
qed

theorem log_emitter_fifo_witness:
  "\<exists>r'. start_log_thread scenario_clock
            (log_put (log_put (log_put (Worker_init ''w1'') ''a'') ''b'') ''c'') 3 empty_store
          = Running (Worker_init ''w1'', r')
     \<and> lists r' ''log'' =
         [''{\"worker_id\": \"w1\", \"job_id\": null, \"timestamp\": \"2024-01-01 00:00:00\", \"message\": \"a\"}'',
          ''{\"worker_id\": \"w1\", \"job_id\": null, \"timestamp\": \"2024-01-01 00:00:01\", \"message\": \"b\"}'',
          ''{\"worker_id\": \"w1\", \"job_id\": null, \"timestamp\": \"2024-01-01 00:00:02\", \"message\": \"c\"}'']"
proof -
  let ?w = "log_put (log_put (log_put (Worker_init ''w1'') ''a'') ''b'') ''c''"
  have a: "\<not> is_exiting ?w" by (simp add: worker_defs)
  have q: "log_queue ?w = [''a'', ''b'', ''c'']" by (simp add: worker_defs)
  have d: "?w\<lparr>log_queue := []\<rparr> = Worker_init ''w1''" by (simp add: worker_defs)
  have l: "lists empty_store ''log'' = []" by (simp add: empty_store_def)
  have three: "enumerate 0 (take 3 [''a'', ''b'', ''c'']) = [(0, ''a''), (1, ''b''), (2, ''c'')]"
    by (simp add: enumerate_eq_zip upt_rec)
  from log_emitter_fifo [of ?w scenario_clock 3 empty_store] a
  obtain entries r' where
    run: "start_log_thread scenario_clock ?w 3 empty_store
            = Running (?w\<lparr>log_queue := drop 3 (log_queue ?w)\<rparr>, r')"
    and app: "lists r' ''log'' = lists empty_store ''log'' @ entries"
    and ent: "map Inr entries =
           map (\<lambda>(i, m). json_dumps (log_record ?w (scenario_clock i) m))
             (enumerate 0 (take 3 (log_queue ?w)))"
    by blast
  from ent have "(map Inr entries :: (pyexc + string) list) =
     [Inr ''{\"worker_id\": \"w1\", \"job_id\": null, \"timestamp\": \"2024-01-01 00:00:00\", \"message\": \"a\"}'',
      Inr ''{\"worker_id\": \"w1\", \"job_id\": null, \"timestamp\": \"2024-01-01 00:00:01\", \"message\": \"b\"}'',
      Inr ''{\"worker_id\": \"w1\", \"job_id\": null, \"timestamp\": \"2024-01-01 00:00:02\", \"message\": \"c\"}'']"
    unfolding q three
    by (simp add: log_record_def scenario_clock_def text_defs worker_defs)
  then have "entries =
     [''{\"worker_id\": \"w1\", \"job_id\": null, \"timestamp\": \"2024-01-01 00:00:00\", \"message\": \"a\"}'',
      ''{\"worker_id\": \"w1\", \"job_id\": null, \"timestamp\": \"2024-01-01 00:00:01\", \"message\": \"b\"}'',
      ''{\"worker_id\": \"w1\", \"job_id\": null, \"timestamp\": \"2024-01-01 00:00:02\", \"message\": \"c\"}'']"
    by (auto simp: map_eq_Cons_conv)
  with run app q d l show ?thesis
    by (intro exI [of _ r']) simp
qed

text \<open>
  C9 as written fails once the exit flag is set: the loop has ended, message
  \<open>a\<close> is still in the queue and the log stream is empty.
\<close>

theorem log_emitter_exit_counterexample:
  "start_log_thread scenario_clock (stop (log_put (Worker_init ''w1'') ''a'')) 3 empty_store
     = Finished (stop (log_put (Worker_init ''w1'') ''a''), empty_store)
   \<and> log_queue (stop (log_put (Worker_init ''w1'') ''a'')) = [''a'']
   \<and> lists empty_store ''log'' = []"
  by (simp add: start_log_thread_def worker_defs empty_store_def numeral_3_eq_3)

end
